theory Spec2Isabelle
  imports Main "HOL-Library.Char_ord" "HOL-Library.List_Lexorder" "HOL-Library.FSet"
begin

section \<open>Python values and exceptions\<close>

text \<open>
  The values that cross the decorators: \<open>None\<close>, booleans, integers, strings, lists and
  dictionaries (an association list in insertion order). Floating point values are outside
  the model. A string is a list of characters with code points below 256.
\<close>

datatype pyval =
    VNone
  | VBool bool
  | VInt int
  | VStr string
  | VList "pyval list"
  | VDict "(pyval \<times> pyval) list"

text \<open>
  An exception object: the names of the classes in the method resolution order of its type
  (its own class first), the text \<open>str(e)\<close> yields, and the exception it was raised
  \<open>from\<close>, if any. Raising and re-raising pass the same value on.
\<close>

datatype exn = Exn (exn_mro: "string list") (exn_str: string) (exn_cause: "exn option")

text \<open>\<open>isinstance(e, exc_type)\<close>: the class is in the method resolution order of \<open>type(e)\<close>.\<close>

definition isinstance :: "exn \<Rightarrow> string \<Rightarrow> bool" where
  "isinstance e exc_type = (exc_type \<in> set (exn_mro e))"

definition sq :: string where
  "sq = [CHR 0x27]"

definition nl :: string where
  "nl = [CHR 0x0A]"

text \<open>\<open>sep.join(xs)\<close>\<close>

fun join :: "string \<Rightarrow> string list \<Rightarrow> string" where
  "join sep [] = []"
| "join sep [x] = x"
| "join sep (x # y # ys) = x @ sep @ join sep (y # ys)"

subsection \<open>exceptions.py and the built-in exceptions used\<close>

definition builtin_exception :: "string list" where
  "builtin_exception = [''Exception'', ''BaseException'', ''object'']"

definition TypeError :: "string \<Rightarrow> exn" where
  "TypeError msg = Exn (''TypeError'' # builtin_exception) msg None"

definition ValueError :: "string \<Rightarrow> exn" where
  "ValueError msg = Exn (''ValueError'' # builtin_exception) msg None"

definition RuntimeError :: "string \<Rightarrow> exn" where
  "RuntimeError msg = Exn (''RuntimeError'' # builtin_exception) msg None"

definition AttributeError :: "string \<Rightarrow> exn" where
  "AttributeError msg = Exn (''AttributeError'' # builtin_exception) msg None"

definition SpecwrightError :: "string list" where
  "SpecwrightError = ''SpecwrightError'' # builtin_exception"

definition SpecError :: "string list" where
  "SpecError = ''SpecError'' # SpecwrightError"

definition InputValidationError :: "string \<Rightarrow> exn option \<Rightarrow> exn" where
  "InputValidationError msg cause = Exn (''InputValidationError'' # SpecError) msg cause"

definition OutputValidationError :: "string \<Rightarrow> exn" where
  "OutputValidationError msg = Exn (''OutputValidationError'' # SpecError) msg None"

definition InvalidTransitionError :: "string \<Rightarrow> exn" where
  "InvalidTransitionError msg = Exn (''InvalidTransitionError'' # SpecwrightError) msg None"

definition InvalidStateError :: "string \<Rightarrow> exn" where
  "InvalidStateError msg = Exn (''InvalidStateError'' # SpecwrightError) msg None"

section \<open>Callables and the diagnostics sink\<close>

text \<open>
  The ambient logging is a list of records, the newest last; every call of
  \<open>logger.exception\<close> appends one. The rest of the program state a callable can read and
  write is the extension of the \<open>world\<close> record.
\<close>

record log_record =
  logger_name :: string
  levelname :: string
  message :: string
  exc_info :: "exn option"

record world =
  sink :: "log_record list"

type_synonym kwargs = "(string \<times> pyval) list"

type_synonym 'w outcome = "(exn + pyval) \<times> 'w"

text \<open>
  A Python function: \<open>__qualname__\<close>, \<open>__module__\<close>, what
  \<open>inspect.signature(func).bind(*args, **kwargs)\<close> followed by \<open>apply_defaults()\<close>
  yields (the message of the \<open>TypeError\<close>, or the ordered \<open>bound.arguments\<close>), and the
  call \<open>func(*args, **kwargs)\<close> itself, which raises or returns and may change the world.
\<close>

record 'w func =
  fn_qualname :: string
  fn_module :: "string option"
  fn_bind :: "pyval list \<Rightarrow> kwargs \<Rightarrow> string + (string \<times> pyval) list"
  fn_call :: "pyval list \<Rightarrow> kwargs \<Rightarrow> 'w \<Rightarrow> 'w outcome"

section \<open>decorators.py: handle_errors\<close>

text \<open>
  A strategy is a plain value (the strings \<open>"ignore"\<close> and \<open>"log"\<close> among them) or a
  callable taking the exception. The handlers are the items of the dictionary in
  insertion order; a key is the name of an exception class.
\<close>

datatype 'w strategy =
    Value pyval
  | Callable "exn \<Rightarrow> 'w \<Rightarrow> 'w outcome"

type_synonym 'w handlers = "(string \<times> 'w strategy) list"

text \<open>What \<open>_apply_strategy\<close> returns: the module's private sentinel \<open>_RAISE\<close> or a value.\<close>

datatype applied = RAISE | Result pyval

definition this_module :: string where
  "this_module = ''specwright.decorators''"

text \<open>\<open>logging.getLogger(func.__module__ or __name__)\<close>\<close>

definition logger_of :: "('w, 'x) func_scheme \<Rightarrow> string" where
  "logger_of func =
     (case fn_module func of
        None \<Rightarrow> this_module
      | Some m \<Rightarrow> if m = [] then this_module else m)"

text \<open>\<open>logger.exception("Error in '%s': %s", func.__qualname__, exception)\<close>\<close>

definition log_exception :: "('w, 'x) func_scheme \<Rightarrow> exn \<Rightarrow> log_record" where
  "log_exception func exception =
     \<lparr> logger_name = logger_of func,
       levelname = ''ERROR'',
       message = ''Error in '' @ sq @ fn_qualname func @ sq @ '': '' @ exn_str exception,
       exc_info = Some exception \<rparr>"

fun apply_strategy ::
  "'a world_scheme strategy \<Rightarrow> exn \<Rightarrow> ('a world_scheme, 'x) func_scheme \<Rightarrow> 'a world_scheme
     \<Rightarrow> (exn + applied) \<times> 'a world_scheme" where
  "apply_strategy (Value v) exception func w =
     (if v = VStr ''ignore'' then (Inr (Result VNone), w)
      else if v = VStr ''log''
        then (Inr RAISE, w\<lparr>sink := sink w @ [log_exception func exception]\<rparr>)
      else (Inr (Result v), w))"
| "apply_strategy (Callable f) exception func w =
     (case f exception w of
        (Inl e', w') \<Rightarrow> (Inl e', w')
      | (Inr v, w') \<Rightarrow> (Inr (Result v), w'))"

text \<open>
  The outcome of the matched entry inside the \<open>except\<close> block: a strategy that raises
  replaces the exception, the sentinel re-raises the caught one, a value is returned.
\<close>

definition resolve :: "exn \<Rightarrow> (exn + applied) \<times> 'w \<Rightarrow> 'w outcome" where
  "resolve e r =
     (case r of
        (Inl e', w') \<Rightarrow> (Inl e', w')
      | (Inr RAISE, w') \<Rightarrow> (Inl e, w')
      | (Inr (Result v), w') \<Rightarrow> (Inr v, w'))"

text \<open>The \<open>for\<close> loop over \<open>handlers.items()\<close>, with the \<open>raise\<close> after it.\<close>

fun dispatch ::
  "'a world_scheme handlers \<Rightarrow> exn \<Rightarrow> ('a world_scheme, 'x) func_scheme \<Rightarrow> 'a world_scheme
     \<Rightarrow> 'a world_scheme outcome" where
  "dispatch [] e fn w = (Inl e, w)"
| "dispatch ((exc_type, strategy) # rest) e fn w =
     (if isinstance e exc_type then resolve e (apply_strategy strategy e fn w)
      else dispatch rest e fn w)"

text \<open>
  The wrapper \<open>handle_errors(handlers)(fn)\<close>: \<open>except catchable\<close> catches an exception
  that is an instance of one of the keys, anything else leaves the \<open>try\<close> as it is.
\<close>

definition handle_errors ::
  "'a world_scheme handlers \<Rightarrow> ('a world_scheme, 'x) func_scheme \<Rightarrow> pyval list \<Rightarrow> kwargs
     \<Rightarrow> 'a world_scheme \<Rightarrow> 'a world_scheme outcome" where
  "handle_errors handlers fn args kw w =
     (case fn_call fn args kw w of
        (Inr v, w') \<Rightarrow> (Inr v, w')
      | (Inl e, w') \<Rightarrow>
          if list_ex (isinstance e) (map fst handlers) then dispatch handlers e fn w'
          else (Inl e, w'))"

section \<open>Rendering values\<close>

text \<open>\<open>type(value).__name__\<close>\<close>

fun py_type_name :: "pyval \<Rightarrow> string" where
  "py_type_name VNone = ''NoneType''"
| "py_type_name (VBool b) = ''bool''"
| "py_type_name (VInt i) = ''int''"
| "py_type_name (VStr s) = ''str''"
| "py_type_name (VList xs) = ''list''"
| "py_type_name (VDict kvs) = ''dict''"

definition digit_char :: "nat \<Rightarrow> char" where
  "digit_char n = ''0123456789'' ! n"

function str_nat :: "nat \<Rightarrow> string" where
  "str_nat n = (if n < 10 then [digit_char n] else str_nat (n div 10) @ [digit_char (n mod 10)])"
  by pat_completeness auto
termination
  by (relation "measure id") auto

declare str_nat.simps [simp del]

definition str_int :: "int \<Rightarrow> string" where
  "str_int i = (if i < 0 then ''-'' @ str_nat (nat (- i)) else str_nat (nat i))"

definition hex_digit :: "nat \<Rightarrow> char" where
  "hex_digit n = ''0123456789abcdef'' ! n"

definition backslash :: char where
  "backslash = CHR 0x5C"

text \<open>
  \<open>repr\<close> of a string, character by character: the quote in use and the backslash are
  escaped, tab, newline and carriage return have their letters, any other character that
  is not printable is written \<open>\xhh\<close>.
\<close>

definition printable :: "char \<Rightarrow> bool" where
  "printable c =
     (let n = (of_char c :: nat)
      in \<not> (n < 32 \<or> n = 127 \<or> (128 \<le> n \<and> n \<le> 160) \<or> n = 173))"

definition repr_char :: "char \<Rightarrow> char \<Rightarrow> string" where
  "repr_char quote c =
     (if c = quote \<or> c = backslash then [backslash, c]
      else if c = CHR 0x09 then [backslash, CHR ''t'']
      else if c = CHR 0x0A then [backslash, CHR ''n'']
      else if c = CHR 0x0D then [backslash, CHR ''r'']
      else if printable c then [c]
      else [backslash, CHR ''x'', hex_digit ((of_char c :: nat) div 16),
            hex_digit ((of_char c :: nat) mod 16)])"

definition repr_str :: "string \<Rightarrow> string" where
  "repr_str s =
     (let quote = (if CHR 0x27 \<in> set s \<and> CHR 0x22 \<notin> set s then CHR 0x22 else CHR 0x27)
      in [quote] @ concat (map (repr_char quote) s) @ [quote])"

text \<open>\<open>repr(value)\<close>\<close>

fun py_repr :: "pyval \<Rightarrow> string" where
  "py_repr VNone = ''None''"
| "py_repr (VBool b) = (if b then ''True'' else ''False'')"
| "py_repr (VInt i) = str_int i"
| "py_repr (VStr s) = repr_str s"
| "py_repr (VList xs) = ''['' @ join '', '' (map py_repr xs) @ '']''"
| "py_repr (VDict kvs) =
     ''{'' @ join '', '' (map (\<lambda>kv. py_repr (fst kv) @ '': '' @ py_repr (snd kv)) kvs) @ ''}''"

section \<open>validation.py\<close>

text \<open>
  The type adapter of the validation library is a parameter of the model:
  \<open>validate_python A h v\<close> says that \<open>TypeAdapter(h).validate_python(v, strict=True)\<close>
  returns without a validation error, and \<open>hint_str A h\<close> is the text of the hint \<open>h\<close>
  in a message.
\<close>

record 'h adapter =
  validate_python :: "'h \<Rightarrow> pyval \<Rightarrow> bool"
  hint_str :: "'h \<Rightarrow> string"

type_synonym 'h hints = "string \<rightharpoonup> 'h"

definition SKIP_PARAMS :: "string set" where
  "SKIP_PARAMS = {''self'', ''cls''}"

definition error_line :: "'h adapter \<Rightarrow> string \<Rightarrow> 'h \<Rightarrow> pyval \<Rightarrow> string" where
  "error_line A name h v =
     ''  - Parameter '' @ sq @ name @ sq @ '': expected '' @ hint_str A h
       @ '', got '' @ py_type_name v @ '' ('' @ py_repr v @ '')''"

text \<open>The loop over \<open>bound.arguments.items()\<close>, appending to \<open>errors\<close>.\<close>

fun check_arguments ::
  "'h adapter \<Rightarrow> 'h hints \<Rightarrow> (string \<times> pyval) list \<Rightarrow> string list \<Rightarrow> string list" where
  "check_arguments A hints [] errors = errors"
| "check_arguments A hints ((name, v) # rest) errors =
     (if name \<in> SKIP_PARAMS then check_arguments A hints rest errors
      else case hints name of
        None \<Rightarrow> check_arguments A hints rest errors
      | Some h \<Rightarrow>
          if validate_python A h v then check_arguments A hints rest errors
          else check_arguments A hints rest (errors @ [error_line A name h v]))"

definition validate_inputs ::
  "'h adapter \<Rightarrow> ('w, 'x) func_scheme \<Rightarrow> 'h hints \<Rightarrow> pyval list \<Rightarrow> kwargs \<Rightarrow> exn + unit" where
  "validate_inputs A func hints args kw =
     (case fn_bind func args kw of
        Inl e \<Rightarrow>
          Inl (InputValidationError
                 (''Argument binding failed for '' @ sq @ fn_qualname func @ sq @ '': '' @ e)
                 (Some (TypeError e)))
      | Inr arguments \<Rightarrow>
          (let errors = check_arguments A hints arguments []
           in if errors \<noteq> []
              then Inl (InputValidationError
                     (''Input validation failed for '' @ sq @ fn_qualname func @ sq @ '':''
                        @ nl @ join nl errors) None)
              else Inr ()))"

definition validate_output ::
  "'h adapter \<Rightarrow> ('w, 'x) func_scheme \<Rightarrow> 'h hints \<Rightarrow> pyval \<Rightarrow> exn + unit" where
  "validate_output A func hints result =
     (case hints ''return'' of
        None \<Rightarrow> Inr ()
      | Some return_type \<Rightarrow>
          if validate_python A return_type result then Inr ()
          else Inl (OutputValidationError
                 (''Output validation failed for '' @ sq @ fn_qualname func @ sq
                    @ '': expected '' @ hint_str A return_type @ '', got ''
                    @ py_type_name result @ '' ('' @ py_repr result @ '')'')))"

section \<open>decorators.py: spec\<close>

record spec_config =
  cfg_validate_inputs :: bool
  cfg_validate_output :: bool

text \<open>The wrapper \<open>spec(...)(fn)\<close>, with \<open>hints\<close> resolved at decoration time.\<close>

definition spec_wrapper ::
  "'h adapter \<Rightarrow> spec_config \<Rightarrow> 'h hints \<Rightarrow> ('w, 'x) func_scheme \<Rightarrow> pyval list \<Rightarrow> kwargs
     \<Rightarrow> 'w \<Rightarrow> 'w outcome" where
  "spec_wrapper A cfg hints fn args kw w =
     (case (if cfg_validate_inputs cfg then validate_inputs A fn hints args kw else Inr ()) of
        Inl e \<Rightarrow> (Inl e, w)
      | Inr _ \<Rightarrow>
          (case fn_call fn args kw w of
             (Inl e, w') \<Rightarrow> (Inl e, w')
           | (Inr result, w') \<Rightarrow>
               (case (if cfg_validate_output cfg then validate_output A fn hints result
                      else Inr ()) of
                  Inl e \<Rightarrow> (Inl e, w')
                | Inr _ \<Rightarrow> (Inr result, w'))))"

section \<open>state_machine.py\<close>

subsection \<open>The transition decorator\<close>

record TransitionMeta =
  from_states :: "string fset"
  to_state :: string

text \<open>The argument \<open>from_state\<close>: one state name or a list of them.\<close>

datatype from_arg = One string | Many "string list"

definition transition_meta :: "from_arg \<Rightarrow> string \<Rightarrow> TransitionMeta" where
  "transition_meta from_state to =
     \<lparr> from_states = (case from_state of One s \<Rightarrow> {|s|} | Many xs \<Rightarrow> fset_of_list xs),
       to_state = to \<rparr>"

text \<open>
  List objects live in a heap, addressed by their position in it; a new list is allocated at
  the end. An instance holds its state name in \<open>_state\<close> (the field \<open>p_state\<close>), the
  address of its history list in \<open>_state_history\<close> (the field \<open>p_state_history\<close>), and
  in \<open>env\<close> its other attributes and the program state around it.

  A guarded body and a hook are called on the instance itself: they get the instance and the
  heap and hand both back as they leave them. Nothing keeps them from writing the two
  private attributes or the history list, nor from calling another guarded operation of
  the same instance.
\<close>

type_synonym heap = "string list list"

record 'u sm_instance =
  p_state :: string
  p_state_history :: nat
  env :: 'u

type_synonym 'u body =
  "'u sm_instance \<Rightarrow> heap \<Rightarrow> pyval list \<Rightarrow> kwargs \<Rightarrow> (exn + pyval) \<times> 'u sm_instance \<times> heap"

type_synonym 'u hook = "'u sm_instance \<Rightarrow> heap \<Rightarrow> exn option \<times> 'u sm_instance \<times> heap"

text \<open>
  What an instance finds on its class at run time: \<open>initial_state\<close>, \<open>track_history\<close>,
  and for a name \<open>on_exit_s\<close> or \<open>on_enter_s\<close> the callable \<open>getattr\<close> returns, if
  there is one. These three are attributes of the class; an instance has none of its own
  under these names.
\<close>

record 'u machine =
  initial_state :: string
  track_history :: bool
  hooks :: "string \<Rightarrow> 'u hook option"

text \<open>A decorated method: its metadata, \<open>method.__name__\<close> and the method itself.\<close>

record 'u guarded =
  g_meta :: TransitionMeta
  g_name :: string
  g_body :: "'u body"

text \<open>The property \<open>state\<close>.\<close>

definition state :: "'u sm_instance \<Rightarrow> string" where
  "state self = p_state self"

text \<open>\<open>on_exit = getattr(self, name, None); if callable(on_exit): on_exit()\<close>\<close>

definition run_hook ::
  "'u hook option \<Rightarrow> 'u sm_instance \<Rightarrow> heap \<Rightarrow> exn option \<times> 'u sm_instance \<times> heap" where
  "run_hook h self hp = (case h of None \<Rightarrow> (None, self, hp) | Some f \<Rightarrow> f self hp)"

text \<open>\<open>self._state_history.append(s)\<close>\<close>

definition history_append :: "heap \<Rightarrow> nat \<Rightarrow> string \<Rightarrow> heap" where
  "history_append hp a s = hp[a := hp ! a @ [s]]"

definition transition_error :: "'u sm_instance \<Rightarrow> 'u guarded \<Rightarrow> exn" where
  "transition_error self g =
     InvalidTransitionError
       (''Cannot transition from '' @ sq @ state self @ sq @ '' to '' @ sq
          @ to_state (g_meta g) @ sq @ '' via '' @ sq @ g_name g @ sq
          @ ''. Valid source state(s): ''
          @ join '', '' (sorted_list_of_fset (from_states (g_meta g))))"

text \<open>The wrapper \<open>transition(from_state=..., to_state=...)(method)\<close>.\<close>

definition transition_wrapper ::
  "'u machine \<Rightarrow> 'u guarded \<Rightarrow> 'u sm_instance \<Rightarrow> heap \<Rightarrow> pyval list \<Rightarrow> kwargs
     \<Rightarrow> (exn + pyval) \<times> 'u sm_instance \<times> heap" where
  "transition_wrapper cls g self hp args kw =
     (if state self |\<notin>| from_states (g_meta g) then (Inl (transition_error self g), self, hp)
      else case g_body g self hp args kw of
        (Inl e, self1, hp1) \<Rightarrow> (Inl e, self1, hp1)
      | (Inr result, self1, hp1) \<Rightarrow>
          (let old_state = p_state self1
           in case run_hook (hooks cls (''on_exit_'' @ old_state)) self1 hp1 of
                (Some e, self2, hp2) \<Rightarrow> (Inl e, self2, hp2)
              | (None, self2, hp2) \<Rightarrow>
                  (let self3 = self2\<lparr>p_state := to_state (g_meta g)\<rparr>;
                       hp3 = (if track_history cls
                              then history_append hp2 (p_state_history self3) (to_state (g_meta g))
                              else hp2)
                   in case run_hook (hooks cls (''on_enter_'' @ to_state (g_meta g))) self3 hp3 of
                        (Some e, self4, hp4) \<Rightarrow> (Inl e, self4, hp4)
                      | (None, self4, hp4) \<Rightarrow> (Inr result, self4, hp4))))"

subsection \<open>Instances\<close>

text \<open>\<open>StateMachine.__init__\<close>, for an instance whose other attributes start as \<open>u\<close>.\<close>

definition init :: "'u machine \<Rightarrow> 'u \<Rightarrow> heap \<Rightarrow> 'u sm_instance \<times> heap" where
  "init cls u hp =
     (\<lparr> p_state = initial_state cls, p_state_history = length hp, env = u \<rparr>,
      hp @ [if track_history cls then [initial_state cls] else []])"


text \<open>The elements of the stored history.\<close>

definition stored_history :: "'u sm_instance \<Rightarrow> heap \<Rightarrow> string list" where
  "stored_history self hp = hp ! p_state_history self"



text \<open>
  A callback that started on \<open>self\<close> and \<open>hp\<close> and ended on \<open>self'\<close> and \<open>hp'\<close> has
  left the private attributes alone: the state name and the history list are the same, and
  the list is in the heap with the elements it had.
\<close>

definition untouched :: "'u sm_instance \<Rightarrow> heap \<Rightarrow> 'u sm_instance \<Rightarrow> heap \<Rightarrow> bool" where
  "untouched self hp self' hp' =
     (p_state self' = p_state self \<and>
      p_state_history self' = p_state_history self \<and>
      p_state_history self < length hp' \<and>
      hp' ! p_state_history self = hp ! p_state_history self)"



subsection \<open>Class definition\<close>

text \<open>
  The namespace of one class body, as the validation reads it: \<open>states\<close> and
  \<open>initial_state\<close> when the body assigns them, and the other names it defines, each with
  the \<open>__transition__\<close> metadata of its value when the value is a decorated method. A
  class is its name and the bodies along its method resolution order, its own first, up to
  \<open>StateMachine\<close>, which has no \<open>states\<close>, no \<open>initial_state\<close> and no decorated method.
\<close>

record class_body =
  decl_states :: "string list option"
  decl_initial_state :: "string option"
  decl_members :: "(string \<times> TransitionMeta option) list"

record machine_class =
  cls_name :: string
  cls_mro :: "class_body list"

text \<open>Attribute lookup along the method resolution order.\<close>

fun first_defined :: "('b \<Rightarrow> 'c option) \<Rightarrow> 'b list \<Rightarrow> 'c option" where
  "first_defined f [] = None"
| "first_defined f (b # bs) = (case f b of Some x \<Rightarrow> Some x | None \<Rightarrow> first_defined f bs)"

definition getattr_states :: "machine_class \<Rightarrow> string list option" where
  "getattr_states cls = first_defined decl_states (cls_mro cls)"

definition getattr_initial_state :: "machine_class \<Rightarrow> string option" where
  "getattr_initial_state cls = first_defined decl_initial_state (cls_mro cls)"

text \<open>
  \<open>getattr(getattr(cls, attr_name, None), "__transition__", None)\<close>: the metadata of
  the first definition of the name, if that is a decorated method.
\<close>

definition getattr_transition :: "machine_class \<Rightarrow> string \<Rightarrow> TransitionMeta option" where
  "getattr_transition cls attr_name =
     (case first_defined (\<lambda>b. map_of (decl_members b) attr_name) (cls_mro cls) of
        None \<Rightarrow> None
      | Some m \<Rightarrow> m)"

text \<open>
  \<open>dir(cls)\<close>: the names defined along the method resolution order, sorted. The names
  \<open>dir\<close> lists beyond these have values without \<open>__transition__\<close>.
\<close>

definition dir :: "machine_class \<Rightarrow> string list" where
  "dir cls = sort (remdups (concat (map (\<lambda>b. map fst (decl_members b)) (cls_mro cls))))"

text \<open>The loop over \<open>dir(cls)\<close>.\<close>

fun check_transitions ::
  "machine_class \<Rightarrow> string fset \<Rightarrow> string list \<Rightarrow> exn + unit" where
  "check_transitions cls state_set [] = Inr ()"
| "check_transitions cls state_set (attr_name # rest) =
     (case getattr_transition cls attr_name of
        None \<Rightarrow> check_transitions cls state_set rest
      | Some meta \<Rightarrow>
          (let invalid_from = from_states meta |-| state_set
           in if invalid_from \<noteq> {||}
              then Inl (InvalidStateError
                     (''Transition '' @ sq @ attr_name @ sq @ '' in '' @ sq @ cls_name cls @ sq
                        @ '' references invalid from_state(s): ''
                        @ py_repr (VList (map VStr (sorted_list_of_fset invalid_from)))))
              else if to_state meta |\<notin>| state_set
              then Inl (InvalidStateError
                     (''Transition '' @ sq @ attr_name @ sq @ '' in '' @ sq @ cls_name cls @ sq
                        @ '' references invalid to_state: '' @ sq @ to_state meta @ sq))
              else check_transitions cls state_set rest))"

definition validate_state_machine_class :: "machine_class \<Rightarrow> exn + unit" where
  "validate_state_machine_class cls =
     (case getattr_states cls of
        None \<Rightarrow>
          Inl (AttributeError
                 (''type object '' @ sq @ cls_name cls @ sq @ '' has no attribute ''
                    @ sq @ ''states'' @ sq))
      | Some states \<Rightarrow>
          if states = []
          then Inl (InvalidStateError
                 (''StateMachine '' @ sq @ cls_name cls @ sq
                    @ '' must define at least one state.''))
          else
            (case getattr_initial_state cls of
               None \<Rightarrow>
                 Inl (InvalidStateError
                        (''StateMachine '' @ sq @ cls_name cls @ sq @ '' must define '' @ sq
                           @ ''initial_state'' @ sq @ ''.''))
             | Some i \<Rightarrow>
                 if i |\<notin>| fset_of_list states
                 then Inl (InvalidStateError
                        (''Initial state '' @ sq @ i @ sq @ '' is not in the defined states for ''
                           @ sq @ cls_name cls @ sq @ '': ''
                           @ py_repr (VList (map VStr states))))
                 else check_transitions cls (fset_of_list states) (dir cls)))"

text \<open>\<open>StateMachine.__init_subclass__\<close>, run when the class statement of \<open>cls\<close> ends.\<close>

definition init_subclass :: "machine_class \<Rightarrow> exn + unit" where
  "init_subclass cls =
     (if getattr_states cls \<noteq> None then validate_state_machine_class cls else Inr ())"

section \<open>Type descriptors\<close>

text \<open>
  Modelled from the spec: the type descriptor of the data model, a tagged variant of
  primitive, optional, sequence, mapping, record and union, which stands for the type
  hints of the host; the code hands the hint objects to the validation library as they
  are. The primitive kinds are those of the values modelled here.
\<close>

datatype prim_kind = KNone | KBool | KInt | KStr

datatype descriptor =
    Primitive prim_kind
  | Optional descriptor
  | Sequence descriptor
  | Mapping descriptor descriptor
  | Record "(string \<times> descriptor) list"
  | Union "descriptor list"

text \<open>
  The host's own instance checks: \<open>isinstance(v, bool)\<close>, and \<open>isinstance(v, int)\<close>,
  which holds of a boolean too, \<open>bool\<close> being a subclass of \<open>int\<close>.
\<close>

fun host_is_bool :: "pyval \<Rightarrow> bool" where
  "host_is_bool (VBool b) = True"
| "host_is_bool v = False"

fun host_is_int :: "pyval \<Rightarrow> bool" where
  "host_is_int (VInt i) = True"
| "host_is_int (VBool b) = True"
| "host_is_int v = False"

fun host_is_str :: "pyval \<Rightarrow> bool" where
  "host_is_str (VStr s) = True"
| "host_is_str v = False"

text \<open>
  Modelled from the spec: the strict structural validation of a value against a type
  descriptor, which the code leaves to the validation library
  (\<open>TypeAdapter(hint).validate_python(value, strict=True)\<close>, not part of this
  repository). The spec has the descriptor variants primitive, optional, sequence,
  mapping, record and union, and asks for strict matching: no conversion between related
  primitive types, and a boolean is never accepted where an integer is declared although
  the host treats it as one. A record is matched by a dictionary with exactly the
  declared fields.
\<close>

fun strict_valid :: "descriptor \<Rightarrow> pyval \<Rightarrow> bool" where
  "strict_valid (Primitive k) v =
     (case k of
        KNone \<Rightarrow> v = VNone
      | KBool \<Rightarrow> host_is_bool v
      | KInt \<Rightarrow> host_is_int v \<and> \<not> host_is_bool v
      | KStr \<Rightarrow> host_is_str v)"
| "strict_valid (Optional d) v = (v = VNone \<or> strict_valid d v)"
| "strict_valid (Sequence d) v =
     (case v of VList xs \<Rightarrow> list_all (strict_valid d) xs | _ \<Rightarrow> False)"
| "strict_valid (Mapping kd vd) v =
     (case v of
        VDict kvs \<Rightarrow> list_all (\<lambda>kv. strict_valid kd (fst kv) \<and> strict_valid vd (snd kv)) kvs
      | _ \<Rightarrow> False)"
| "strict_valid (Record fds) v =
     (case v of
        VDict kvs \<Rightarrow>
          list_all (\<lambda>kv. fst kv \<in> set (map (\<lambda>fd. VStr (fst fd)) fds)) kvs \<and>
          list_all (\<lambda>fd. case map_of kvs (VStr (fst fd)) of
                            None \<Rightarrow> False
                          | Some x \<Rightarrow> strict_valid (snd fd) x) fds
      | _ \<Rightarrow> False)"
| "strict_valid (Union ds) v = list_ex (\<lambda>d. strict_valid d v) ds"

text \<open>
  Modelled from the spec: the text that names the expected type in a message; the code
  prints the hint object of the host there.
\<close>

fun descriptor_str :: "descriptor \<Rightarrow> string" where
  "descriptor_str (Primitive k) =
     (case k of KNone \<Rightarrow> ''None'' | KBool \<Rightarrow> ''bool'' | KInt \<Rightarrow> ''int'' | KStr \<Rightarrow> ''str'')"
| "descriptor_str (Optional d) = ''Optional['' @ descriptor_str d @ '']''"
| "descriptor_str (Sequence d) = ''list['' @ descriptor_str d @ '']''"
| "descriptor_str (Mapping kd vd) =
     ''dict['' @ descriptor_str kd @ '', '' @ descriptor_str vd @ '']''"
| "descriptor_str (Record fds) =
     ''{'' @ join '', '' (map (\<lambda>fd. fst fd @ '': '' @ descriptor_str (snd fd)) fds) @ ''}''"
| "descriptor_str (Union ds) = ''Union['' @ join '', '' (map descriptor_str ds) @ '']''"

definition strict_adapter :: "descriptor adapter" where
  "strict_adapter = \<lparr> validate_python = strict_valid, hint_str = descriptor_str \<rparr>"

section \<open>Notions of the specification\<close>

text \<open>
  A bound argument is checked when its name is not one of the receiver names and has a
  hint; it is offending when, in addition, the adapter rejects its value.
\<close>

definition offending :: "'h adapter \<Rightarrow> 'h hints \<Rightarrow> string \<times> pyval \<Rightarrow> bool" where
  "offending A hints a =
     (fst a \<notin> SKIP_PARAMS \<and>
      (case hints (fst a) of None \<Rightarrow> False | Some h \<Rightarrow> \<not> validate_python A h (snd a)))"

text \<open>The line of the message for one offending argument.\<close>

definition line_of :: "'h adapter \<Rightarrow> 'h hints \<Rightarrow> string \<times> pyval \<Rightarrow> string" where
  "line_of A hints a =
     ''  - Parameter '' @ sq @ fst a @ sq @ '': expected ''
       @ (case hints (fst a) of None \<Rightarrow> [] | Some h \<Rightarrow> hint_str A h)
       @ '', got '' @ py_type_name (snd a) @ '' ('' @ py_repr (snd a) @ '')''"

definition input_violation ::
  "'h adapter \<Rightarrow> ('w, 'x) func_scheme \<Rightarrow> 'h hints \<Rightarrow> (string \<times> pyval) list \<Rightarrow> exn" where
  "input_violation A func hints arguments =
     InputValidationError
       (''Input validation failed for '' @ sq @ fn_qualname func @ sq @ '':'' @ nl
          @ join nl (map (line_of A hints) (filter (offending A hints) arguments)))
       None"

text \<open>Every state a transition names is one of the declared states.\<close>

definition transition_in_states :: "string list \<Rightarrow> TransitionMeta \<Rightarrow> bool" where
  "transition_in_states states meta =
     (fset (from_states meta) \<subseteq> set states \<and> to_state meta \<in> set states)"

section \<open>Example programs\<close>

text \<open>
  \<open>Signature.bind\<close> for a signature of plain parameters (positional or keyword, no
  defaults): positional arguments first, then the keywords, with the messages of
  \<open>inspect\<close>.
\<close>

fun plain_bind :: "string list \<Rightarrow> pyval list \<Rightarrow> kwargs \<Rightarrow> string + (string \<times> pyval) list" where
  "plain_bind [] [] kw =
     (case kw of
        [] \<Rightarrow> Inr []
      | (k, v) # rest \<Rightarrow> Inl (''got an unexpected keyword argument '' @ repr_str k))"
| "plain_bind [] (a # as) kw = Inl ''too many positional arguments''"
| "plain_bind (p # ps) (a # as) kw =
     (if p \<in> set (map fst kw) then Inl (''multiple values for argument '' @ repr_str p)
      else map_sum id ((#) (p, a)) (plain_bind ps as kw))"
| "plain_bind (p # ps) [] kw =
     (case map_of kw p of
        None \<Rightarrow> Inl (''missing a required argument: '' @ repr_str p)
      | Some v \<Rightarrow>
          map_sum id ((#) (p, v)) (plain_bind ps [] (filter (\<lambda>kv. fst kv \<noteq> p) kw)))"

text \<open>
  A function of plain parameters in the module \<open>examples\<close>. Called with arguments that
  do not fit its parameters it raises the interpreter's \<open>TypeError\<close>, whose text is
  abbreviated to the binding message here; otherwise it runs its body on the bound
  arguments.
\<close>

definition plain_function ::
  "string \<Rightarrow> string list \<Rightarrow> ((string \<times> pyval) list \<Rightarrow> 'w \<Rightarrow> 'w outcome) \<Rightarrow> 'w func" where
  "plain_function qualname params body =
     \<lparr> fn_qualname = qualname,
       fn_module = Some ''examples'',
       fn_bind = plain_bind params,
       fn_call = (\<lambda>args kw w.
          case plain_bind params args kw of
            Inl m \<Rightarrow> (Inl (TypeError (qualname @ ''() '' @ m)), w)
          | Inr arguments \<Rightarrow> body arguments w) \<rparr>"

text \<open>\<open>def ping() -> int: return 1\<close>, with the interpreter's own messages.\<close>

definition ping :: "world func" where
  "ping =
     \<lparr> fn_qualname = ''ping'',
       fn_module = Some ''examples'',
       fn_bind = plain_bind [],
       fn_call = (\<lambda>args kw w.
          case kw of
            (k, v) # rest \<Rightarrow>
              (Inl (TypeError (''ping() got an unexpected keyword argument '' @ repr_str k)), w)
          | [] \<Rightarrow>
              if args = [] then (Inr (VInt 1), w)
              else (Inl (TypeError
                      (''ping() takes 0 positional arguments but '' @ str_nat (length args)
                         @ (if length args = 1 then '' was given'' else '' were given''))), w)) \<rparr>"

definition ping_hints :: "descriptor hints" where
  "ping_hints = [''return'' \<mapsto> Primitive KInt]"

text \<open>\<open>def register(cls: int) -> None: return None\<close>\<close>

definition register :: "world func" where
  "register = plain_function ''register'' [''cls''] (\<lambda>arguments w. (Inr VNone, w))"

definition register_hints :: "descriptor hints" where
  "register_hints = [''cls'' \<mapsto> Primitive KInt, ''return'' \<mapsto> Primitive KNone]"

text \<open>\<open>def store(x: int) -> None: return None\<close>\<close>

definition store :: "world func" where
  "store = plain_function ''store'' [''x''] (\<lambda>arguments w. (Inr VNone, w))"

definition store_hints :: "descriptor hints" where
  "store_hints = [''x'' \<mapsto> Primitive KInt, ''return'' \<mapsto> Primitive KNone]"

text \<open>\<open>def rename(self: str, name: str, times: int) -> None: return None\<close>\<close>

definition rename :: "world func" where
  "rename =
     plain_function ''rename'' [''self'', ''name'', ''times''] (\<lambda>arguments w. (Inr VNone, w))"

definition rename_hints :: "descriptor hints" where
  "rename_hints =
     [''self'' \<mapsto> Primitive KStr, ''name'' \<mapsto> Primitive KStr, ''times'' \<mapsto> Primitive KInt,
      ''return'' \<mapsto> Primitive KNone]"

text \<open>\<open>def fail() -> str: raise ValueError("test")\<close>\<close>

definition fail :: "world func" where
  "fail = plain_function ''fail'' [] (\<lambda>arguments w. (Inl (ValueError ''test''), w))"

definition everything_on :: spec_config where
  "everything_on = \<lparr> cfg_validate_inputs = True, cfg_validate_output = True \<rparr>"

definition quiet :: world where
  "quiet = \<lparr> sink = [] \<rparr>"

text \<open>
  The order machine: states \<open>pending\<close>, \<open>paid\<close>, \<open>shipped\<close>, initial state
  \<open>pending\<close>, history tracked, no hooks. \<open>pay\<close> and \<open>ship\<close> return \<open>None\<close> and
  \<open>audit\<close> raises, all three without a write. An instance has no attributes of its own.
\<close>

definition order_machine :: "unit machine" where
  "order_machine =
     \<lparr> initial_state = ''pending'', track_history = True, hooks = (\<lambda>name. None) \<rparr>"

definition pay :: "unit guarded" where
  "pay =
     \<lparr> g_meta = transition_meta (One ''pending'') ''paid'',
       g_name = ''pay'',
       g_body = (\<lambda>self hp args kw. (Inr VNone, self, hp)) \<rparr>"

definition ship :: "unit guarded" where
  "ship =
     \<lparr> g_meta = transition_meta (Many [''paid'', ''packed'']) ''shipped'',
       g_name = ''ship'',
       g_body = (\<lambda>self hp args kw. (Inr VNone, self, hp)) \<rparr>"

definition audit :: "unit guarded" where
  "audit =
     \<lparr> g_meta = transition_meta (One ''pending'') ''paid'',
       g_name = ''audit'',
       g_body = (\<lambda>self hp args kw. (Inl (RuntimeError ''failed''), self, hp)) \<rparr>"

text \<open>
  \<open>rush\<close>, guarded from \<open>pending\<close> to \<open>shipped\<close>, has the body
  \<open>self.pay(); raise RuntimeError("failed")\<close>.
\<close>

definition rush :: "unit guarded" where
  "rush =
     \<lparr> g_meta = transition_meta (One ''pending'') ''shipped'',
       g_name = ''rush'',
       g_body = (\<lambda>self hp args kw.
          case transition_wrapper order_machine pay self hp [] [] of
            (Inl e, self', hp') \<Rightarrow> (Inl e, self', hp')
          | (Inr r, self', hp') \<Rightarrow> (Inl (RuntimeError ''failed''), self', hp')) \<rparr>"


text \<open>
  Class statements. \<open>Base\<close> declares three states and a transition into the third;
  \<open>Child(Base)\<close> declares two states again and inherits the transition;
  \<open>Heir(Base)\<close> assigns no states of its own and adds a transition. \<open>Empty\<close>
  declares an empty list of states, \<open>Misplaced\<close> an initial state that is not one of its
  states. \<open>Mixin\<close> and \<open>Drifter\<close> declare no states, an initial state and a
  transition.
\<close>

definition base_body :: class_body where
  "base_body =
     \<lparr> decl_states = Some [''a'', ''b'', ''c''],
       decl_initial_state = Some ''a'',
       decl_members = [(''go_c'', Some (transition_meta (One ''b'') ''c''))] \<rparr>"

definition child_class :: machine_class where
  "child_class =
     \<lparr> cls_name = ''Child'',
       cls_mro =
         [\<lparr> decl_states = Some [''a'', ''b''], decl_initial_state = None, decl_members = [] \<rparr>,
          base_body] \<rparr>"

definition heir_class :: machine_class where
  "heir_class =
     \<lparr> cls_name = ''Heir'',
       cls_mro =
         [\<lparr> decl_states = None, decl_initial_state = None,
            decl_members = [(''go_z'', Some (transition_meta (One ''a'') ''z''))] \<rparr>,
          base_body] \<rparr>"

definition empty_class :: machine_class where
  "empty_class =
     \<lparr> cls_name = ''Empty'',
       cls_mro =
         [\<lparr> decl_states = Some [], decl_initial_state = Some ''a'', decl_members = [] \<rparr>] \<rparr>"

definition misplaced_class :: machine_class where
  "misplaced_class =
     \<lparr> cls_name = ''Misplaced'',
       cls_mro =
         [\<lparr> decl_states = Some [''a'', ''b''], decl_initial_state = Some ''z'',
            decl_members = [] \<rparr>] \<rparr>"

definition drifter_class :: machine_class where
  "drifter_class =
     \<lparr> cls_name = ''Drifter'',
       cls_mro =
         [\<lparr> decl_states = None,
            decl_initial_state = Some ''x'',
            decl_members = [(''go'', Some (transition_meta (One ''x'') ''y''))] \<rparr>] \<rparr>"

definition mixin_class :: machine_class where
  "mixin_class =
     \<lparr> cls_name = ''Mixin'',
       cls_mro =
         [\<lparr> decl_states = None,
            decl_initial_state = Some ''nowhere'',
            decl_members = [(''go'', Some (transition_meta (One ''x'') ''y''))] \<rparr>] \<rparr>"

section \<open>The error dispatch engine\<close>

lemma dispatch_find:
  "dispatch handlers e fn w =
     (case find (\<lambda>h. isinstance e (fst h)) handlers of
        None \<Rightarrow> (Inl e, w)
      | Some h \<Rightarrow> resolve e (apply_strategy (snd h) e fn w))"
  by (induction handlers) auto

lemma catchable_find:
  "list_ex (isinstance e) (map fst handlers)
     \<longleftrightarrow> find (\<lambda>h. isinstance e (fst h)) handlers \<noteq> None"
  by (induction handlers) auto

text \<open>
  Claim C1. When the wrapped callable raises \<open>e\<close>, the engine takes the first entry, in the
  order of declaration, whose class is in the method resolution order of \<open>e\<close>'s type (its own
  class or a superclass), and the call ends as that entry's strategy decides; the entries
  after it play no part. When no entry matches, \<open>e\<close> leaves the wrapper as it was raised.
\<close>

theorem handle_errors_first_match:
  assumes "fn_call fn args kw w = (Inl e, w')"
  shows "handle_errors handlers fn args kw w =
     (case find (\<lambda>h. isinstance e (fst h)) handlers of
        None \<Rightarrow> (Inl e, w')
      | Some h \<Rightarrow> resolve e (apply_strategy (snd h) e fn w'))"
  using assms
  by (simp add: handle_errors_def dispatch_find catchable_find split: option.splits)

theorem handle_errors_first_match_witness:
  "fn_call fail [] [] quiet = (Inl (ValueError ''test''), quiet) \<and>
   isinstance (ValueError ''test'') ''Exception'' \<and>
   isinstance (ValueError ''test'') ''ValueError'' \<and>
   handle_errors [(''Exception'', Value (VStr ''h1'')), (''ValueError'', Value (VStr ''h2''))]
     fail [] [] quiet = (Inr (VStr ''h1''), quiet)"
  using handle_errors_first_match [of fail "[]" "[]" quiet "ValueError ''test''" quiet
      "[(''Exception'', Value (VStr ''h1'')), (''ValueError'', Value (VStr ''h2''))]"]
  by (simp add: fail_def plain_function_def ValueError_def isinstance_def resolve_def
      builtin_exception_def)

text \<open>
  Claim C6. When the first matching entry has the strategy \<open>"log"\<close>, the wrapper appends
  one record to the diagnostics sink, made of the logger of the callable's module, the level
  of \<open>logger.exception\<close>, a message with the callable's qualified name and the text of
  the exception, and the exception itself as the traceback information; then the call ends
  by raising the exception that was caught. It is never suppressed.
\<close>

theorem log_reraises:
  assumes "fn_call fn args kw w = (Inl e, w')"
    and "find (\<lambda>h. isinstance e (fst h)) handlers = Some (exc_type, Value (VStr ''log''))"
  shows "handle_errors handlers fn args kw w =
     (Inl e,
      w'\<lparr>sink := sink w' @
         [\<lparr> logger_name = logger_of fn,
            levelname = ''ERROR'',
            message = ''Error in '' @ sq @ fn_qualname fn @ sq @ '': '' @ exn_str e,
            exc_info = Some e \<rparr>]\<rparr>)"
  using assms
  by (simp add: handle_errors_def dispatch_find catchable_find resolve_def log_exception_def)

theorem log_reraises_witness:
  "handle_errors [(''KeyError'', Value (VStr ''ignore'')), (''Exception'', Value (VStr ''log''))]
     fail [] [] quiet =
   (Inl (ValueError ''test''),
    \<lparr> sink = [\<lparr> logger_name = ''examples'', levelname = ''ERROR'',
                message = ''Error in '' @ sq @ ''fail'' @ sq @ '': test'',
                exc_info = Some (ValueError ''test'') \<rparr>] \<rparr>)"
  using log_reraises [of fail "[]" "[]" quiet "ValueError ''test''" quiet
      "[(''KeyError'', Value (VStr ''ignore'')), (''Exception'', Value (VStr ''log''))]"
      "''Exception''"]
  by (simp add: fail_def plain_function_def ValueError_def isinstance_def quiet_def
      builtin_exception_def logger_of_def)

section \<open>The type contract validator\<close>

lemma check_arguments_eq:
  "check_arguments A hints arguments errors =
     errors @ map (line_of A hints) (filter (offending A hints) arguments)"
  by (induction arguments arbitrary: errors)
     (auto simp: offending_def line_of_def error_line_def split: option.splits)

lemma validate_inputs_bound:
  assumes "fn_bind fn args kw = Inr arguments"
  shows "validate_inputs A fn hints args kw =
     (if filter (offending A hints) arguments = [] then Inr ()
      else Inl (input_violation A fn hints arguments))"
  using assms
  by (simp add: validate_inputs_def check_arguments_eq input_violation_def Let_def)

text \<open>
  Claim C5, as amended. With input validation enabled, when at least one bound argument
  whose name is not \<open>self\<close> or \<open>cls\<close> is rejected for its declared type, the call fails
  with one input contract violation whose message has, after the heading, one line for
  every such argument in binding order, each naming the parameter, the expected type and
  the type and value received; the callable is not invoked.
\<close>

theorem all_mismatches_reported:
  assumes "cfg_validate_inputs cfg"
    and "fn_bind fn args kw = Inr arguments"
    and "filter (offending A hints) arguments \<noteq> []"
  shows "spec_wrapper A cfg hints (fn\<lparr>fn_call := c\<rparr>) args kw w =
     (Inl (InputValidationError
             (''Input validation failed for '' @ sq @ fn_qualname fn @ sq @ '':'' @ nl
                @ join nl (map (line_of A hints) (filter (offending A hints) arguments)))
             None), w)"
  using assms
  by (simp add: spec_wrapper_def validate_inputs_bound [of _ _ _ arguments] input_violation_def)

theorem all_mismatches_reported_witness:
  "spec_wrapper strict_adapter everything_on rename_hints rename
       [VStr ''a'', VInt 5, VBool True] [] quiet =
     (Inl (InputValidationError
             (''Input validation failed for '' @ sq @ ''rename'' @ sq @ '':'' @ nl
                @ ''  - Parameter '' @ sq @ ''name'' @ sq @ '': expected str, got int (5)'' @ nl
                @ ''  - Parameter '' @ sq @ ''times'' @ sq @ '': expected int, got bool (True)'')
             None), quiet)"
  using all_mismatches_reported [of everything_on rename "[VStr ''a'', VInt 5, VBool True]" "[]"
      "[(''self'', VStr ''a''), (''name'', VInt 5), (''times'', VBool True)]"
      strict_adapter rename_hints "fn_call rename" quiet]
  by (simp add: everything_on_def rename_def plain_function_def rename_hints_def offending_def
      SKIP_PARAMS_def strict_adapter_def line_of_def str_int_def str_nat.simps digit_char_def sq_def nl_def)

text \<open>
  Claim C5 as stated fails: a parameter named \<open>self\<close> or \<open>cls\<close> is skipped even when
  it has a declared type, so \<open>rename(7, "n", 1)\<close> with \<open>self: str\<close> is accepted.
\<close>

theorem receiver_mismatch_accepted:
  "fn_bind rename [VInt 7, VStr ''n'', VInt 1] [] =
     Inr [(''self'', VInt 7), (''name'', VStr ''n''), (''times'', VInt 1)] \<and>
   rename_hints ''self'' = Some (Primitive KStr) \<and>
   \<not> validate_python strict_adapter (Primitive KStr) (VInt 7) \<and>
   spec_wrapper strict_adapter everything_on rename_hints rename
       [VInt 7, VStr ''n'', VInt 1] [] quiet = (Inr VNone, quiet)"
  by (simp add: everything_on_def rename_def plain_function_def rename_hints_def
      SKIP_PARAMS_def strict_adapter_def spec_wrapper_def validate_inputs_def
      validate_output_def)

text \<open>
  Claim C4, as amended. With input validation enabled and strict validation as the spec
  describes it, a boolean bound to a parameter declared as integer, the parameter not being
  named \<open>self\<close> or \<open>cls\<close>, makes the call fail with the input contract violation,
  although the host counts a boolean as an integer; the callable is not invoked.
\<close>

theorem bool_rejected_for_int:
  assumes "cfg_validate_inputs cfg"
    and "fn_bind fn args kw = Inr arguments"
    and "(name, VBool b) \<in> set arguments"
    and "name \<notin> SKIP_PARAMS"
    and "hints name = Some (Primitive KInt)"
  shows "host_is_int (VBool b) \<and>
     offending strict_adapter hints (name, VBool b) \<and>
     spec_wrapper strict_adapter cfg hints (fn\<lparr>fn_call := c\<rparr>) args kw w =
       (Inl (input_violation strict_adapter fn hints arguments), w)"
proof -
  have off: "offending strict_adapter hints (name, VBool b)"
    using assms(4,5) by (simp add: offending_def strict_adapter_def)
  with assms(3) have "filter (offending strict_adapter hints) arguments \<noteq> []"
    by (auto simp: filter_empty_conv)
  with assms(1,2) off show ?thesis
    by (simp add: spec_wrapper_def validate_inputs_bound [of _ _ _ arguments]
        input_violation_def)
qed

theorem bool_rejected_for_int_witness:
  "spec_wrapper strict_adapter everything_on store_hints store [VBool True] [] quiet =
     (Inl (InputValidationError
             (''Input validation failed for '' @ sq @ ''store'' @ sq @ '':'' @ nl
                @ ''  - Parameter '' @ sq @ ''x'' @ sq @ '': expected int, got bool (True)'')
             None), quiet)"
  using bool_rejected_for_int [of everything_on store "[VBool True]" "[]" "[(''x'', VBool True)]"
      "''x''" True store_hints "fn_call store" quiet]
  by (simp add: everything_on_def store_def plain_function_def store_hints_def offending_def
      SKIP_PARAMS_def strict_adapter_def line_of_def input_violation_def sq_def nl_def)

text \<open>
  Claim C4 as stated fails: \<open>register(True)\<close> with \<open>cls: int\<close> passes input
  validation, the name \<open>cls\<close> being skipped, and the function runs.
\<close>

theorem bool_accepted_for_receiver:
  "fn_bind register [VBool True] [] = Inr [(''cls'', VBool True)] \<and>
   register_hints ''cls'' = Some (Primitive KInt) \<and>
   spec_wrapper strict_adapter everything_on register_hints register [VBool True] [] quiet =
     (Inr VNone, quiet)"
  by (simp add: everything_on_def register_def plain_function_def register_hints_def
      SKIP_PARAMS_def strict_adapter_def spec_wrapper_def validate_inputs_def
      validate_output_def)

text \<open>
  Claim C9, as amended. With input validation enabled, a call whose arguments cannot be
  bound to the parameters fails with an input contract violation whose message holds the
  text of the binding error and whose cause is that \<open>TypeError\<close>; whatever the callable
  would do plays no part, and the world is as before the call.
\<close>

theorem binding_failure:
  assumes "cfg_validate_inputs cfg"
    and "fn_bind fn args kw = Inl m"
  shows "spec_wrapper A cfg hints (fn\<lparr>fn_call := c\<rparr>) args kw w =
     (Inl (InputValidationError
             (''Argument binding failed for '' @ sq @ fn_qualname fn @ sq @ '': '' @ m)
             (Some (TypeError m))), w)"
  using assms by (simp add: spec_wrapper_def validate_inputs_def)

theorem binding_failure_witness:
  "spec_wrapper strict_adapter everything_on ping_hints ping [VInt 5] [] quiet =
     (Inl (InputValidationError
             (''Argument binding failed for '' @ sq @ ''ping'' @ sq
                @ '': too many positional arguments'')
             (Some (TypeError ''too many positional arguments''))), quiet)"
  using binding_failure [of everything_on ping "[VInt 5]" "[]" "''too many positional arguments''"
      strict_adapter ping_hints "fn_call ping" quiet]
  by (simp add: everything_on_def ping_def)

text \<open>
  Claim C9 as stated fails: binding is part of input validation, and with
  \<open>validate_inputs=False\<close> the wrapper calls the function straight away, so the
  unbindable call \<open>ping(5)\<close> ends in the interpreter's own \<open>TypeError\<close>.
\<close>

theorem unchecked_call_raises_type_error:
  "fn_bind ping [VInt 5] [] = Inl ''too many positional arguments'' \<and>
   spec_wrapper strict_adapter \<lparr> cfg_validate_inputs = False, cfg_validate_output = True \<rparr>
       ping_hints ping [VInt 5] [] quiet =
     (Inl (TypeError ''ping() takes 0 positional arguments but 1 was given''), quiet) \<and>
   \<not> isinstance (TypeError ''ping() takes 0 positional arguments but 1 was given'')
       ''InputValidationError''"
  by (simp add: ping_def spec_wrapper_def str_nat.simps digit_char_def sq_def nl_def TypeError_def
      isinstance_def builtin_exception_def)

section \<open>The state transition engine\<close>

lemma sorted_list_of_fset_empty: "sorted_list_of_fset {||} = []"
  by (simp add: sorted_list_of_fset.rep_eq)

lemma sorted_list_of_fset_finsert:
  "sorted_list_of_fset (finsert x S) =
     (if x |\<in>| S then sorted_list_of_fset S else insort x (sorted_list_of_fset S))"
proof (cases "x |\<in>| S")
  case True
  then have "finsert x S = S" by (simp add: finsert_absorb)
  with True show ?thesis by simp
next
  case False
  then show ?thesis by (simp add: sorted_list_of_fset.rep_eq)
qed

text \<open>
  Claim C3. When the current state is not one of the allowed source states, the call raises
  the transition error whose message names the current state, the target, the operation and
  the allowed source states joined in sorted order (the sorted list has every source state
  once); this holds whatever the body is, so the body is not invoked, and the instance and
  the heap are as before the call.
\<close>

theorem guard_rejects:
  assumes "state self |\<notin>| from_states (g_meta g)"
  shows "transition_wrapper cls (g\<lparr>g_body := b\<rparr>) self hp args kw =
     (Inl (InvalidTransitionError
             (''Cannot transition from '' @ sq @ state self @ sq @ '' to '' @ sq
                @ to_state (g_meta g) @ sq @ '' via '' @ sq @ g_name g @ sq
                @ ''. Valid source state(s): ''
                @ join '', '' (sorted_list_of_fset (from_states (g_meta g))))),
      self, hp) \<and>
     sorted (sorted_list_of_fset (from_states (g_meta g))) \<and>
     distinct (sorted_list_of_fset (from_states (g_meta g))) \<and>
     set (sorted_list_of_fset (from_states (g_meta g))) = fset (from_states (g_meta g))"
  using assms
  by (simp add: transition_wrapper_def transition_error_def state_def
      sorted_list_of_fset.rep_eq)

theorem guard_rejects_witness:
  "transition_wrapper order_machine ship (fst (init order_machine () [])) 
      (snd (init order_machine () [])) [] [] =
     (Inl (InvalidTransitionError
             (''Cannot transition from '' @ sq @ ''pending'' @ sq @ '' to '' @ sq
                @ ''shipped'' @ sq @ '' via '' @ sq @ ''ship'' @ sq
                @ ''. Valid source state(s): packed, paid'')),
      \<lparr> p_state = ''pending'', p_state_history = 0, env = () \<rparr>, [[''pending'']])"
  using guard_rejects [of "fst (init order_machine () [])" ship order_machine "g_body ship"
      "snd (init order_machine () [])" "[]" "[]"]
  by (simp add: init_def order_machine_def ship_def transition_meta_def state_def
      sorted_list_of_fset_empty sorted_list_of_fset_finsert sq_def)

text \<open>
  Claim C2, as amended. When the guard lets the call through and the body raises \<open>e\<close>,
  the call raises \<open>e\<close> and the wrapper itself writes nothing and runs no hook: the
  instance and the heap are exactly as the body left them. Hence, when the body has left
  the private attributes alone, the state and the history after the call are those before
  it.
\<close>

theorem body_raise_commits_nothing:
  assumes "state self |\<in>| from_states (g_meta g)"
    and "g_body g self hp args kw = (Inl e, self1, hp1)"
  shows "transition_wrapper cls g self hp args kw = (Inl e, self1, hp1) \<and>
     (untouched self hp self1 hp1 \<longrightarrow>
        (case transition_wrapper cls g self hp args kw of
           (r, self', hp') \<Rightarrow>
             state self' = state self \<and> stored_history self' hp' = stored_history self hp))"
  using assms by (simp add: transition_wrapper_def state_def stored_history_def untouched_def)

theorem body_raise_commits_nothing_witness:
  "untouched (fst (init order_machine () [])) (snd (init order_machine () []))
      (fst (init order_machine () [])) (snd (init order_machine () [])) \<and>
   state (fst (init order_machine () [])) = ''pending'' \<and>
   stored_history (fst (init order_machine () [])) (snd (init order_machine () []))
     = [''pending''] \<and>
   transition_wrapper order_machine audit (fst (init order_machine () []))
      (snd (init order_machine () [])) [] [] =
     (Inl (RuntimeError ''failed''),
      \<lparr> p_state = ''pending'', p_state_history = 0, env = () \<rparr>, [[''pending'']])"
  using body_raise_commits_nothing [of "fst (init order_machine () [])" audit
      "snd (init order_machine () [])" "[]" "[]" "RuntimeError ''failed''"
      "fst (init order_machine () [])" "snd (init order_machine () [])" order_machine]
  by (simp add: init_def order_machine_def audit_def transition_meta_def state_def
      untouched_def stored_history_def)

text \<open>
  Claim C2 as stated fails: the wrapper keeps no copy of the state to go back to. The body
  of \<open>rush\<close> calls \<open>pay\<close>, which commits, and then raises; after the call of
  \<open>rush\<close> has raised, the instance is in state \<open>paid\<close>, not \<open>pending\<close>, and the
  history has grown.
\<close>

theorem nested_transition_survives_raise:
  "state (fst (init order_machine () [])) = ''pending'' \<and>
   stored_history (fst (init order_machine () [])) (snd (init order_machine () []))
     = [''pending''] \<and>
   state (fst (init order_machine () [])) |\<in>| from_states (g_meta rush) \<and>
   transition_wrapper order_machine rush (fst (init order_machine () []))
      (snd (init order_machine () [])) [] [] =
     (Inl (RuntimeError ''failed''),
      \<lparr> p_state = ''paid'', p_state_history = 0, env = () \<rparr>, [[''pending'', ''paid'']])"
  by (simp add: init_def order_machine_def rush_def pay_def transition_meta_def state_def
      stored_history_def transition_wrapper_def run_hook_def history_append_def)








lemma check_transitions_outcome:
  "check_transitions cls S names = Inr () \<or>
   (\<exists>msg. check_transitions cls S names = Inl (InvalidStateError msg))"
  by (induction names) (auto simp: Let_def split: option.splits)

lemma check_transitions_bad:
  assumes "n \<in> set names" and "getattr_transition cls n = Some meta"
    and "\<not> transition_in_states states meta"
  shows "\<exists>msg. check_transitions cls (fset_of_list states) names = Inl (InvalidStateError msg)"
  using assms(1)
proof (induction names)
  case Nil
  then show ?case by simp
next
  case (Cons a names)
  show ?case
  proof (cases "a = n")
    case True
    from assms(3) have "from_states meta |-| fset_of_list states \<noteq> {||}
        \<or> to_state meta |\<notin>| fset_of_list states"
      by (auto simp: transition_in_states_def fset_of_list_elem)
    with True assms(2) show ?thesis by (auto simp: Let_def)
  next
    case False
    with Cons have "\<exists>msg. check_transitions cls (fset_of_list states) names
        = Inl (InvalidStateError msg)" by simp
    then show ?thesis by (auto simp: Let_def split: option.splits)
  qed
qed

lemma first_defined_skip:
  "\<forall>c\<in>set own. f c = None \<Longrightarrow> first_defined f (own @ bs) = first_defined f bs"
  by (induction own) auto

lemma first_defined_None:
  "\<forall>c\<in>set bs. f c = None \<Longrightarrow> first_defined f bs = None"
  by (induction bs) auto

lemma first_defined_Some:
  "\<exists>b\<in>set bs. f b \<noteq> None \<Longrightarrow> first_defined f bs \<noteq> None"
  by (induction bs) (auto split: option.splits)

lemma set_dir:
  "set (dir cls) = (\<Union>b\<in>set (cls_mro cls). fst ` set (decl_members b))"
  by (auto simp: dir_def)

lemma check_transitions_good:
  assumes "\<forall>n\<in>set names. \<forall>meta. getattr_transition cls n = Some meta
      \<longrightarrow> transition_in_states states meta"
  shows "check_transitions cls (fset_of_list states) names = Inr ()"
  using assms
proof (induction names)
  case Nil
  then show ?case by simp
next
  case (Cons a names)
  then show ?case
    by (cases "getattr_transition cls a")
       (auto simp: Let_def transition_in_states_def fset_of_list_elem)
qed

text \<open>A class whose declaration is in order is accepted.\<close>

lemma valid_declaration_accepted:
  assumes "getattr_states cls = Some states" and "states \<noteq> []"
    and "getattr_initial_state cls = Some i" and "i \<in> set states"
    and "\<forall>n\<in>set (dir cls). \<forall>meta. getattr_transition cls n = Some meta
      \<longrightarrow> transition_in_states states meta"
  shows "init_subclass cls = Inr ()"
  using assms check_transitions_good [of "dir cls" cls states]
  by (simp add: init_subclass_def validate_state_machine_class_def fset_of_list_elem)

text \<open>
  Claim C8, as amended. For a class on which a \<open>states\<close> attribute exists, assigned in
  its own body or in the body of a base class, the class statement fails
  with a definition error when the list of states is empty, when there is no initial state
  or it is not one of the states, or when a decorated operation found on the class, in its
  own body or in the body of a base class that no earlier body overrides, names a source or
  target state that is not one of the states.
\<close>

theorem definition_errors:
  assumes "getattr_states cls = Some states"
    and "states = [] \<or> getattr_initial_state cls = None
       \<or> (\<exists>i. getattr_initial_state cls = Some i \<and> i \<notin> set states)
       \<or> (\<exists>own b rest n meta. cls_mro cls = own @ b # rest
            \<and> (\<forall>c\<in>set own. map_of (decl_members c) n = None)
            \<and> map_of (decl_members b) n = Some (Some meta)
            \<and> \<not> transition_in_states states meta)"
  shows "\<exists>msg. init_subclass cls = Inl (InvalidStateError msg)"
proof (cases "states = []")
  case True
  with assms(1) show ?thesis
    by (auto simp: init_subclass_def validate_state_machine_class_def)
next
  case nonempty: False
  show ?thesis
  proof (cases "getattr_initial_state cls")
    case None
    with assms(1) nonempty show ?thesis
      by (auto simp: init_subclass_def validate_state_machine_class_def)
  next
    case (Some i)
    show ?thesis
    proof (cases "i \<in> set states")
      case False
      with assms(1) nonempty Some show ?thesis
        by (auto simp: init_subclass_def validate_state_machine_class_def fset_of_list_elem)
    next
      case True
      with assms(2) nonempty Some obtain own b rest n meta where m:
        "cls_mro cls = own @ b # rest"
        "\<forall>c\<in>set own. map_of (decl_members c) n = None"
        "map_of (decl_members b) n = Some (Some meta)"
        "\<not> transition_in_states states meta" by auto
      from m(1,2,3) have g: "getattr_transition cls n = Some meta"
        by (simp add: getattr_transition_def first_defined_skip)
      from m(3) have "n \<in> fst ` set (decl_members b)"
        by (metis domI dom_map_of_conv_image_fst)
      with m(1) have "n \<in> set (dir cls)" by (auto simp: set_dir)
      from check_transitions_bad [OF this g m(4)] assms(1) nonempty Some True show ?thesis
        by (auto simp: init_subclass_def validate_state_machine_class_def fset_of_list_elem)
    qed
  qed
qed

theorem definition_errors_witness:
  "init_subclass empty_class =
     Inl (InvalidStateError
            (''StateMachine '' @ sq @ ''Empty'' @ sq @ '' must define at least one state.'')) \<and>
   init_subclass misplaced_class =
     Inl (InvalidStateError
            (''Initial state '' @ sq @ ''z'' @ sq @ '' is not in the defined states for ''
               @ sq @ ''Misplaced'' @ sq @ '': ['' @ sq @ ''a'' @ sq @ '', '' @ sq @ ''b'' @ sq
               @ '']'')) \<and>
   getattr_states child_class = Some [''a'', ''b''] \<and>
   init_subclass child_class =
     Inl (InvalidStateError
            (''Transition '' @ sq @ ''go_c'' @ sq @ '' in '' @ sq @ ''Child'' @ sq
               @ '' references invalid to_state: '' @ sq @ ''c'' @ sq))"
proof -
  have e: "getattr_states empty_class = Some []"
    by (simp add: getattr_states_def empty_class_def)
  have m: "getattr_states misplaced_class = Some [''a'', ''b'']"
    by (simp add: getattr_states_def misplaced_class_def)
  have mi: "getattr_initial_state misplaced_class = Some ''z''"
    by (simp add: getattr_initial_state_def misplaced_class_def)
  have s: "getattr_states child_class = Some [''a'', ''b'']"
    by (simp add: getattr_states_def child_class_def)
  have "\<exists>own b rest n meta. cls_mro child_class = own @ b # rest
            \<and> (\<forall>c\<in>set own. map_of (decl_members c) n = None)
            \<and> map_of (decl_members b) n = Some (Some meta)
            \<and> \<not> transition_in_states [''a'', ''b''] meta"
    apply (rule exI [of _ "[\<lparr> decl_states = Some [''a'', ''b''], decl_initial_state = None,
        decl_members = [] \<rparr>]"])
    apply (rule exI [of _ base_body])
    apply (rule exI [of _ "[]"])
    apply (rule exI [of _ "''go_c''"])
    apply (rule exI [of _ "transition_meta (One ''b'') ''c''"])
    apply (simp add: child_class_def base_body_def transition_in_states_def transition_meta_def)
    done
  with definition_errors [OF s]
  have c1: "\<exists>msg. init_subclass child_class = Inl (InvalidStateError msg)" by blast
  from definition_errors [OF e]
  have c2: "\<exists>msg. init_subclass empty_class = Inl (InvalidStateError msg)" by blast
  from definition_errors [OF m] mi
  have c3: "\<exists>msg. init_subclass misplaced_class = Inl (InvalidStateError msg)" by simp
  have "init_subclass child_class =
     Inl (InvalidStateError
            (''Transition '' @ sq @ ''go_c'' @ sq @ '' in '' @ sq @ ''Child'' @ sq
               @ '' references invalid to_state: '' @ sq @ ''c'' @ sq))"
    by (simp add: init_subclass_def validate_state_machine_class_def getattr_states_def
        getattr_initial_state_def child_class_def base_body_def dir_def getattr_transition_def
        transition_meta_def)
  moreover have "init_subclass empty_class =
     Inl (InvalidStateError
            (''StateMachine '' @ sq @ ''Empty'' @ sq @ '' must define at least one state.''))"
    by (simp add: init_subclass_def validate_state_machine_class_def getattr_states_def
        empty_class_def)
  moreover have "init_subclass misplaced_class =
     Inl (InvalidStateError
            (''Initial state '' @ sq @ ''z'' @ sq @ '' is not in the defined states for ''
               @ sq @ ''Misplaced'' @ sq @ '': ['' @ sq @ ''a'' @ sq @ '', '' @ sq @ ''b'' @ sq
               @ '']''))"
    by (simp add: init_subclass_def validate_state_machine_class_def getattr_states_def
        getattr_initial_state_def misplaced_class_def repr_str_def repr_char_def printable_def Let_def
        backslash_def sq_def)
  ultimately show ?thesis using s c1 c2 c3 by simp
qed

text \<open>
  Claim C8 as stated fails: validation is run only for a class on which \<open>states\<close>
  exists. The class statement of \<open>Drifter\<close>, which declares an initial state and a
  transition between two names and no states at all, raises nothing.
\<close>

theorem undeclared_states_accepted:
  "getattr_states drifter_class = None \<and>
   getattr_initial_state drifter_class = Some ''x'' \<and>
   getattr_transition drifter_class ''go'' = Some (transition_meta (One ''x'') ''y'') \<and>
   init_subclass drifter_class = Inr ()"
  by (simp add: drifter_class_def getattr_states_def getattr_initial_state_def
      getattr_transition_def init_subclass_def)

text \<open>
  Claim C10. When neither the class body nor the body of any base class assigns
  \<open>states\<close>, the class statement raises nothing, whatever initial state and whatever
  transitions the class has: no check runs. Validation runs exactly when a \<open>states\<close>
  attribute exists on the class, be it assigned in a base class.
\<close>

theorem no_states_no_validation:
  "((\<forall>b\<in>set (cls_mro cls). decl_states b = None) \<longrightarrow> init_subclass cls = Inr ()) \<and>
   ((\<exists>b\<in>set (cls_mro cls). decl_states b \<noteq> None) \<longrightarrow>
      init_subclass cls = validate_state_machine_class cls)"
proof (intro conjI impI)
  assume "\<forall>b\<in>set (cls_mro cls). decl_states b = None"
  then show "init_subclass cls = Inr ()"
    by (simp add: init_subclass_def getattr_states_def first_defined_None)
next
  assume "\<exists>b\<in>set (cls_mro cls). decl_states b \<noteq> None"
  then have "first_defined decl_states (cls_mro cls) \<noteq> None"
    by (simp add: first_defined_Some)
  then show "init_subclass cls = validate_state_machine_class cls"
    by (simp add: init_subclass_def getattr_states_def)
qed

theorem no_states_no_validation_witness:
  "getattr_initial_state mixin_class = Some ''nowhere'' \<and>
   getattr_transition mixin_class ''go'' = Some (transition_meta (One ''x'') ''y'') \<and>
   init_subclass mixin_class = Inr () \<and>
   init_subclass heir_class = validate_state_machine_class heir_class \<and>
   init_subclass heir_class =
     Inl (InvalidStateError
            (''Transition '' @ sq @ ''go_z'' @ sq @ '' in '' @ sq @ ''Heir'' @ sq
               @ '' references invalid to_state: '' @ sq @ ''z'' @ sq))"
proof -
  have v: "validate_state_machine_class heir_class =
     Inl (InvalidStateError
            (''Transition '' @ sq @ ''go_z'' @ sq @ '' in '' @ sq @ ''Heir'' @ sq
               @ '' references invalid to_state: '' @ sq @ ''z'' @ sq))"
    by (simp add: validate_state_machine_class_def getattr_states_def
        getattr_initial_state_def heir_class_def base_body_def dir_def getattr_transition_def
        transition_meta_def)
  show ?thesis
    using no_states_no_validation [of mixin_class] no_states_no_validation [of heir_class] v
    by (simp add: mixin_class_def heir_class_def base_body_def getattr_initial_state_def
        getattr_transition_def)
qed

end
